theory Spec2Isabelle
  imports Complex_Main "HOL-Library.Log_Nat"
begin

section \<open>The spaced-repetition scheduler of \<^verbatim>\<open>src/services/firebaseService.ts\<close>\<close>

text \<open>
  The scheduler is the group of functions under the heading
  \<^verbatim>\<open>Revision Schedules (Spaced Repetition)\<close> of \<^verbatim>\<open>firebaseService.ts\<close>, together with
  \<^verbatim>\<open>deleteStoredContent\<close>, which cascades into it. The specification calls them
  \<^verbatim>\<open>recordReview\<close> (\<^verbatim>\<open>updateRevisionAfterReview\<close>), \<^verbatim>\<open>createSchedulesForContent\<close>
  (\<^verbatim>\<open>createRevisionSchedulesForContent\<close>), \<^verbatim>\<open>getDueSchedules\<close> (\<^verbatim>\<open>getDueRevisions\<close>) and
  \<^verbatim>\<open>deleteSchedulesForContent\<close> (the loop inside \<^verbatim>\<open>deleteStoredContent\<close>).

  Modelling decisions, all visible in the definitions below:
  \<^item> A JavaScript \<^verbatim>\<open>number\<close> is the rational it denotes: every finite binary64 value is
    one. The operators \<^verbatim>\<open>+\<close>, \<^verbatim>\<open>-\<close> and \<^verbatim>\<open>*\<close> in the ease-factor and interval
    computations, and the decimal literals there, are the exact operation followed by the
    binary64 rounding \<open>round64\<close> (to nearest, ties to even). Results of magnitude
    \<open>2 ^ 1024\<close> and more, which binary64 replaces by an infinity, are not part of the model,
    nor are \<^verbatim>\<open>NaN\<close> and the sign of zero. \<^verbatim>\<open>reviewCount\<close> and \<^verbatim>\<open>interval\<close> only ever
    hold integers and are of type \<open>int\<close>. \<^verbatim>\<open>Math.round\<close> returns the nearest integer,
    the larger one of two, which is \<^const>\<open>round\<close>. The mastery expression is written with
    exact operations: on the halves and integers it meets, binary64 is exact.
  \<^item> A \<^verbatim>\<open>Date\<close> is its time value, the number of milliseconds since the epoch; every
    \<^verbatim>\<open>new Date()\<close> of the source is a clock reading given to the model as an argument,
    one argument per \<^verbatim>\<open>new Date()\<close> expression that is evaluated. Local time is the
    time value plus the offset of the time zone, which the environment gives.
  \<^item> \<^verbatim>\<open>Timestamp.fromDate\<close> throws for a date outside the years 1 to 9999. The check is
    modelled in \<^verbatim>\<open>updateRevisionAfterReview\<close>, where the date grows with the stored
    interval; the date written by \<^verbatim>\<open>saveRevisionSchedule\<close> is the day after the clock
    reading and is taken to be in range.
  \<^item> Firestore is a pair of collections, each an association list from document id to
    document data. Every request to it may be rejected; which ones are is decided by the
    environment, as is the id that \<^verbatim>\<open>addDoc\<close> generates. Requests are numbered, and the
    number of requests issued so far is part of the state.
  \<^item> A rejected promise is the value \<open>Inl err\<close>; the state reached is returned next to it,
    because writes that happened before the rejection stay.
  \<^item> \<^verbatim>\<open>console.error\<close> appends its message to the \<open>console\<close> component of the state.
\<close>

subsection \<open>Data model (\<^verbatim>\<open>src/types/index.ts\<close>)\<close>

type_synonym number = rat

type_synonym date = int

datatype scheduleType = daily | weekly | monthly

text \<open>Of an \<^verbatim>\<open>ExtractedTopic\<close> the scheduler reads \<^verbatim>\<open>id\<close> and \<^verbatim>\<open>name\<close>.\<close>

record ExtractedTopic =
  topic_id :: string
  topic_name :: string
  topic_content :: string
  keyTerms :: "string list"

record StoredContent =
  userId :: string
  title :: string
  fileName :: string
  topics :: "ExtractedTopic list"

text \<open>
  The data of a \<^verbatim>\<open>revisionSchedules\<close> document, that is \<^verbatim>\<open>Omit<RevisionSchedule, 'id'>\<close>:
  the id is the key of the document in its collection.
\<close>

record RevisionSchedule =
  userId :: string
  contentId :: string
  topicId :: string
  topicName :: string
  scheduleType :: scheduleType
  nextReviewDate :: date
  lastReviewDate :: "date option"
  reviewCount :: int
  masteryLevel :: number
  interval :: int
  easeFactor :: number

subsection \<open>Binary64 arithmetic\<close>

text \<open>\<open>pow2 k\<close> is \<open>2\<close> to the power \<open>k\<close>, for any integer \<open>k\<close>.\<close>

definition pow2 :: "int \<Rightarrow> rat" where
  "pow2 k = (if 0 \<le> k then 2 ^ nat k else 1 / 2 ^ nat (- k))"

text \<open>The binary exponent of a positive rational: \<open>pow2 (exponent x) \<le> x < pow2 (exponent x + 1)\<close>.\<close>

definition exponent :: "rat \<Rightarrow> int" where
  "exponent x = (if 1 \<le> x then bitlen \<lfloor>x\<rfloor> - 1 else - bitlen (\<lceil>1 / x\<rceil> - 1))"

definition roundTiesToEven :: "rat \<Rightarrow> int" where
  "roundTiesToEven y =
     (let f = \<lfloor>y\<rfloor> in
      if y - of_int f < 1 / 2 then f
      else if 1 / 2 < y - of_int f then f + 1
      else if even f then f else f + 1)"

text \<open>
  The binary64 value nearest to \<open>x\<close>: a multiple of \<open>pow2 k\<close>, where \<open>k\<close> leaves a
  significand of 53 bits, and is \<open>-1074\<close> for the subnormal values.
\<close>

definition round64 :: "rat \<Rightarrow> rat" where
  "round64 x =
     (if x = 0 then 0
      else let k = max (exponent \<bar>x\<bar> - 52) (- 1074)
           in of_int (roundTiesToEven (x / pow2 k)) * pow2 k)"

subsection \<open>The persistence layer and its environment\<close>

datatype error = RequestFailed | NoDocumentToUpdate | TimestampOutOfRange

record world =
  storedContent :: "(string \<times> StoredContent) list"
  revisionSchedules :: "(string \<times> RevisionSchedule) list"
  requests :: nat
  console :: "string list"

text \<open>
  \<open>localTZA t True\<close> is the offset of local time from UTC at the time value \<open>t\<close>, and
  \<open>localTZA t False\<close> the offset at the local time \<open>t\<close> (\<^verbatim>\<open>LocalTZA\<close> of ECMA-262).
\<close>

record env =
  fails :: "nat \<Rightarrow> bool"
  autoId :: "nat \<Rightarrow> string"
  localTZA :: "date \<Rightarrow> bool \<Rightarrow> int"

definition issued :: "world \<Rightarrow> world" where
  "issued w = w\<lparr>requests := Suc (requests w)\<rparr>"

definition console_error :: "string \<Rightarrow> world \<Rightarrow> world" where
  "console_error msg w = w\<lparr>console := console w @ [msg]\<rparr>"

text \<open>\<^verbatim>\<open>getDoc(doc(db, 'revisionSchedules', id))\<close>; \<open>None\<close> is a snapshot with \<^verbatim>\<open>exists()\<close> false.\<close>

definition getDoc_revisionSchedules ::
  "env \<Rightarrow> string \<Rightarrow> world \<Rightarrow> (error + RevisionSchedule option) \<times> world" where
  "getDoc_revisionSchedules e sid w =
     (if fails e (requests w) then (Inl RequestFailed, issued w)
      else (Inr (map_of (revisionSchedules w) sid), issued w))"

text \<open>
  \<^verbatim>\<open>getDocs(query(collection(db, 'revisionSchedules'), where..., orderBy('nextReviewDate', 'asc')))\<close>:
  the documents that satisfy the \<^verbatim>\<open>where\<close> clauses, in ascending order of
  \<^verbatim>\<open>nextReviewDate\<close> (documents with equal dates keep their relative order here).
\<close>

definition getDocs_revisionSchedules ::
  "env \<Rightarrow> (RevisionSchedule \<Rightarrow> bool) \<Rightarrow> world
     \<Rightarrow> (error + (string \<times> RevisionSchedule) list) \<times> world" where
  "getDocs_revisionSchedules e wh w =
     (if fails e (requests w) then (Inl RequestFailed, issued w)
      else (Inr (sort_key (\<lambda>kd. nextReviewDate (snd kd))
                  (filter (\<lambda>kd. wh (snd kd)) (revisionSchedules w))),
            issued w))"


text \<open>
  \<^verbatim>\<open>updateDoc(doc(db, 'revisionSchedules', id), fields)\<close>: the fields are written by \<open>upd\<close>;
  Firestore rejects the update of a document that does not exist.
\<close>

definition updateDoc_revisionSchedules ::
  "env \<Rightarrow> string \<Rightarrow> (RevisionSchedule \<Rightarrow> RevisionSchedule) \<Rightarrow> world
     \<Rightarrow> (error + unit) \<times> world" where
  "updateDoc_revisionSchedules e sid upd w =
     (if fails e (requests w) then (Inl RequestFailed, issued w)
      else if map_of (revisionSchedules w) sid = None then (Inl NoDocumentToUpdate, issued w)
      else (Inr (),
            issued (w\<lparr>revisionSchedules :=
                        map (\<lambda>kd. if fst kd = sid then (fst kd, upd (snd kd)) else kd)
                          (revisionSchedules w)\<rparr>)))"

text \<open>\<^verbatim>\<open>deleteDoc\<close> succeeds whether or not the document exists.\<close>

definition deleteDoc_revisionSchedules ::
  "env \<Rightarrow> string \<Rightarrow> world \<Rightarrow> (error + unit) \<times> world" where
  "deleteDoc_revisionSchedules e sid w =
     (if fails e (requests w) then (Inl RequestFailed, issued w)
      else (Inr (),
            issued (w\<lparr>revisionSchedules :=
                        filter (\<lambda>kd. fst kd \<noteq> sid) (revisionSchedules w)\<rparr>)))"

definition deleteDoc_storedContent ::
  "env \<Rightarrow> string \<Rightarrow> world \<Rightarrow> (error + unit) \<times> world" where
  "deleteDoc_storedContent e cid w =
     (if fails e (requests w) then (Inl RequestFailed, issued w)
      else (Inr (),
            issued (w\<lparr>storedContent :=
                        filter (\<lambda>kd. fst kd \<noteq> cid) (storedContent w)\<rparr>)))"

text \<open>
  \<^verbatim>\<open>d.setDate(d.getDate() + n)\<close>. ECMA-262 computes
  \<^verbatim>\<open>UTC(MakeDate(MakeDay(year, month, date + n), TimeWithinDay(t)))\<close> from the local time
  \<^verbatim>\<open>t = LocalTime(d)\<close>. The day number of the first argument is that of \<open>t\<close> plus \<open>n\<close>, so
  the local time moves by \<open>n\<close> days of 86400000 ms and keeps its time of day; the result is
  that local time, read back as a time value.
\<close>

definition addDays :: "env \<Rightarrow> date \<Rightarrow> int \<Rightarrow> date" where
  "addDays e d n =
     (let t = d + localTZA e d True;
          newDate = t + n * 86400000
      in newDate - localTZA e newDate False)"

text \<open>
  \<^verbatim>\<open>Timestamp.fromDate\<close>: the constructor of \<^verbatim>\<open>Timestamp\<close> throws unless the seconds are at
  least \<open>-62135596800\<close> (year 1) and below \<open>253402300800\<close> (year 10000).
\<close>

definition inTimestampRange :: "date \<Rightarrow> bool" where
  "inTimestampRange d = (- 62135596800000 \<le> d \<and> d < 253402300800000)"

definition Timestamp_fromDate :: "date \<Rightarrow> error + date" where
  "Timestamp_fromDate d = (if inTimestampRange d then Inr d else Inl TimestampOutOfRange)"

subsection \<open>Queries\<close>

definition getRevisionSchedules ::
  "env \<Rightarrow> string \<Rightarrow> world \<Rightarrow> (string \<times> RevisionSchedule) list \<times> world" where
  "getRevisionSchedules e uid w =
     (case getDocs_revisionSchedules e (\<lambda>d. userId d = uid) w of
        (Inl err, w') \<Rightarrow> ([], console_error ''Error getting revision schedules:'' w')
      | (Inr docs, w') \<Rightarrow> (docs, w'))"

definition getDueRevisions ::
  "env \<Rightarrow> date \<Rightarrow> string \<Rightarrow> world \<Rightarrow> (string \<times> RevisionSchedule) list \<times> world" where
  "getDueRevisions e now uid w =
     (case getDocs_revisionSchedules e (\<lambda>d. userId d = uid \<and> nextReviewDate d \<le> now) w of
        (Inl err, w') \<Rightarrow> ([], console_error ''Error getting due revisions:'' w')
      | (Inr docs, w') \<Rightarrow> (docs, w'))"

subsection \<open>Recording a review (\<^verbatim>\<open>updateRevisionAfterReview\<close>)\<close>

text \<open>
  The local variables \<^verbatim>\<open>newEaseFactor\<close> and \<^verbatim>\<open>newInterval\<close>, and the mastery expression.
  In \<open>newEaseFactor\<close> each operator of
  \<^verbatim>\<open>schedule.easeFactor + (0.1 - (5 - quality) * (0.08 + (5 - quality) * 0.02))\<close> and each
  decimal literal is rounded, from the inside out.
\<close>

definition newEaseFactor :: "RevisionSchedule \<Rightarrow> number \<Rightarrow> number" where
  "newEaseFactor schedule quality =
     max (round64 (13 / 10))
       (round64 (easeFactor schedule +
          round64 (round64 (1 / 10) -
            round64 (round64 (5 - quality) *
              round64 (round64 (8 / 100) +
                round64 (round64 (5 - quality) * round64 (2 / 100)))))))"

definition newInterval :: "RevisionSchedule \<Rightarrow> number \<Rightarrow> int" where
  "newInterval schedule quality =
     (if quality < 3 then 1
      else if reviewCount schedule = 0 then 1
      else if reviewCount schedule = 1 then 6
      else round (round64 (of_int (interval schedule) * newEaseFactor schedule quality)))"

definition newMasteryLevel :: "RevisionSchedule \<Rightarrow> number \<Rightarrow> number" where
  "newMasteryLevel schedule quality =
     min 100 (max 0 (masteryLevel schedule + (quality - 5 / 2) * 10))"

text \<open>
  The fields of the object given to \<^verbatim>\<open>updateDoc\<close>: \<open>lastTs\<close> and \<open>nextTs\<close> are the two
  timestamps, the rest is computed from the schedule that was read.
\<close>

definition reviewed :: "date \<Rightarrow> date \<Rightarrow> number \<Rightarrow> RevisionSchedule \<Rightarrow> RevisionSchedule
     \<Rightarrow> RevisionSchedule" where
  "reviewed lastTs nextTs quality schedule d =
     d\<lparr>interval := newInterval schedule quality,
       easeFactor := newEaseFactor schedule quality,
       reviewCount := reviewCount schedule + 1,
       lastReviewDate := Some lastTs,
       nextReviewDate := nextTs,
       masteryLevel := newMasteryLevel schedule quality\<rparr>"

text \<open>
  \<open>now1\<close> is the clock read by \<^verbatim>\<open>const nextReviewDate = new Date()\<close>, \<open>now2\<close> the clock read
  by \<^verbatim>\<open>lastReviewDate: Timestamp.fromDate(new Date())\<close>, a few statements later. The object
  is built, and either \<^verbatim>\<open>Timestamp.fromDate\<close> may throw, before \<^verbatim>\<open>updateDoc\<close> is called.
\<close>

definition updateRevisionAfterReview ::
  "env \<Rightarrow> date \<Rightarrow> date \<Rightarrow> string \<Rightarrow> number \<Rightarrow> world \<Rightarrow> (error + unit) \<times> world" where
  "updateRevisionAfterReview e now1 now2 scheduleId quality w =
     (case getDoc_revisionSchedules e scheduleId w of
        (Inl err, w1) \<Rightarrow> (Inl err, console_error ''Error updating revision schedule:'' w1)
      | (Inr None, w1) \<Rightarrow> (Inr (), w1)
      | (Inr (Some schedule), w1) \<Rightarrow>
          (case Timestamp_fromDate now2 of
             Inl err \<Rightarrow> (Inl err, console_error ''Error updating revision schedule:'' w1)
           | Inr lastTs \<Rightarrow>
               (case Timestamp_fromDate (addDays e now1 (newInterval schedule quality)) of
                  Inl err \<Rightarrow> (Inl err, console_error ''Error updating revision schedule:'' w1)
                | Inr nextTs \<Rightarrow>
                    (case updateDoc_revisionSchedules e scheduleId
                            (reviewed lastTs nextTs quality schedule) w1 of
                       (Inl err, w2) \<Rightarrow>
                         (Inl err, console_error ''Error updating revision schedule:'' w2)
                     | (Inr u, w2) \<Rightarrow> (Inr (), w2)))))"

subsection \<open>Creating the schedules of a document (\<^verbatim>\<open>createRevisionSchedulesForContent\<close>)\<close>





subsection \<open>Deleting a document and its schedules (\<^verbatim>\<open>deleteStoredContent\<close>)\<close>

text \<open>The \<^verbatim>\<open>for (const schedule of schedules)\<close> loop.\<close>

fun forEachSchedule ::
  "env \<Rightarrow> (string \<times> RevisionSchedule) list \<Rightarrow> world \<Rightarrow> (error + unit) \<times> world" where
  "forEachSchedule e [] w = (Inr (), w)"
| "forEachSchedule e (schedule # rest) w =
     (case deleteDoc_revisionSchedules e (fst schedule) w of
        (Inl err, w') \<Rightarrow> (Inl err, w')
      | (Inr u, w') \<Rightarrow> forEachSchedule e rest w')"

text \<open>
  The schedules to delete are fetched with \<^verbatim>\<open>getRevisionSchedules(contentId)\<close>, whose
  parameter is a user id and whose query is \<^verbatim>\<open>where('userId', '==', userId)\<close>.
\<close>

definition deleteStoredContent :: "env \<Rightarrow> string \<Rightarrow> world \<Rightarrow> (error + unit) \<times> world" where
  "deleteStoredContent e cid w =
     (case deleteDoc_storedContent e cid w of
        (Inl err, w1) \<Rightarrow> (Inl err, console_error ''Error deleting stored content:'' w1)
      | (Inr u, w1) \<Rightarrow>
          (case getRevisionSchedules e cid w1 of
             (schedules, w2) \<Rightarrow>
               (case forEachSchedule e schedules w2 of
                  (Inl err, w3) \<Rightarrow> (Inl err, console_error ''Error deleting stored content:'' w3)
                | (Inr u', w3) \<Rightarrow> (Inr (), w3))))"

subsection \<open>The specification's \<^verbatim>\<open>clamp\<close>\<close>


subsection \<open>Concrete environments and states\<close>

text \<open>
  An environment in which no request is rejected, and one that rejects request \<open>k\<close> only,
  both in the time zone UTC.
\<close>

definition quietEnv :: env where
  "quietEnv = \<lparr>fails = (\<lambda>n. False), autoId = (\<lambda>n. ''doc'' @ replicate n CHR ''x''),
               localTZA = (\<lambda>t isUTC. 0)\<rparr>"

definition rejecting :: "nat \<Rightarrow> env" where
  "rejecting k = \<lparr>fails = (\<lambda>n. n = k), autoId = (\<lambda>n. ''doc'' @ replicate n CHR ''x''),
                  localTZA = (\<lambda>t isUTC. 0)\<rparr>"

text \<open>
  A time zone whose clocks go forward by one hour at the time value 50000000, from the
  local time 50000000 to the local time 53600000: the local day that contains the change
  has 23 hours. A local time in the hour that is skipped has the offset before the change.
\<close>

definition springEnv :: env where
  "springEnv = \<lparr>fails = (\<lambda>n. False), autoId = (\<lambda>n. ''doc'' @ replicate n CHR ''x''),
                localTZA = (\<lambda>t isUTC. if isUTC then (if t < 50000000 then 0 else 3600000)
                                      else (if t < 53600000 then 0 else 3600000))\<rparr>"

text \<open>
  A schedule as \<^verbatim>\<open>createRevisionSchedulesForContent\<close> leaves it, one reviewed five times,
  and one whose ease factor is the binary64 value of \<^verbatim>\<open>1.3\<close>.
\<close>

definition freshSchedule :: RevisionSchedule where
  "freshSchedule =
     \<lparr>userId = ''u1'', contentId = ''c1'', topicId = ''t1'', topicName = ''Graphs'',
      scheduleType = daily, nextReviewDate = 86400000, lastReviewDate = None,
      reviewCount = 0, masteryLevel = 0, interval = 1, easeFactor = 5 / 2\<rparr>"

definition seasonedSchedule :: RevisionSchedule where
  "seasonedSchedule =
     \<lparr>userId = ''u1'', contentId = ''c1'', topicId = ''t2'', topicName = ''Trees'',
      scheduleType = daily, nextReviewDate = 86400000, lastReviewDate = Some 0,
      reviewCount = 5, masteryLevel = 50, interval = 20, easeFactor = 5 / 2\<rparr>"

definition strugglingSchedule :: RevisionSchedule where
  "strugglingSchedule =
     \<lparr>userId = ''u2'', contentId = ''c2'', topicId = ''t9'', topicName = ''Tries'',
      scheduleType = daily, nextReviewDate = 500, lastReviewDate = Some 0,
      reviewCount = 3, masteryLevel = 10, interval = 1,
      easeFactor = 5854679515581645 / 4503599627370496\<rparr>"

text \<open>
  The schedule that a fresh one becomes after reviews of quality 2, 1, 5, 3 and 5: its
  ease factor is the binary64 value of \<^verbatim>\<open>1.7\<close>.
\<close>

definition practisedSchedule :: RevisionSchedule where
  "practisedSchedule =
     \<lparr>userId = ''u1'', contentId = ''c1'', topicId = ''t4'', topicName = ''Sorting'',
      scheduleType = daily, nextReviewDate = 432001000, lastReviewDate = Some 1000,
      reviewCount = 5, masteryLevel = 55, interval = 5,
      easeFactor = 7656119366529843 / 4503599627370496\<rparr>"

text \<open>
  The schedule that a fresh one becomes after reviews of quality 2, 1, 4, 3 and 5: its
  ease factor is the binary64 value \<^verbatim>\<open>1.5999999999999999\<close>.
\<close>

definition waveringSchedule :: RevisionSchedule where
  "waveringSchedule =
     \<lparr>userId = ''u1'', contentId = ''c1'', topicId = ''t5'', topicName = ''Hashing'',
      scheduleType = daily, nextReviewDate = 432001000, lastReviewDate = Some 1000,
      reviewCount = 5, masteryLevel = 45, interval = 5,
      easeFactor = 7205759403792793 / 4503599627370496\<rparr>"

text \<open>
  The schedule that a fresh one becomes after reviews of quality 2 and 1: its ease factor
  is the binary64 value \<^verbatim>\<open>1.6399999999999997\<close>.
\<close>

definition relearnedSchedule :: RevisionSchedule where
  "relearnedSchedule =
     \<lparr>userId = ''u1'', contentId = ''c1'', topicId = ''t7'', topicName = ''Queues'',
      scheduleType = daily, nextReviewDate = 86401000, lastReviewDate = Some 1000,
      reviewCount = 2, masteryLevel = 0, interval = 1,
      easeFactor = 1846475847221903 / 1125899906842624\<rparr>"

text \<open>A schedule whose interval has grown to 1500000 days, some 4100 years.\<close>

definition distantSchedule :: RevisionSchedule where
  "distantSchedule =
     \<lparr>userId = ''u1'', contentId = ''c1'', topicId = ''t6'', topicName = ''Graphs'',
      scheduleType = daily, nextReviewDate = 129600000001000, lastReviewDate = Some 1000,
      reviewCount = 15, masteryLevel = 100, interval = 1500000, easeFactor = 5 / 2\<rparr>"

definition topicA :: ExtractedTopic where
  "topicA = \<lparr>topic_id = ''t1'', topic_name = ''Graphs'', topic_content = ''nodes and edges'',
             keyTerms = [''vertex'']\<rparr>"

definition topicB :: ExtractedTopic where
  "topicB = \<lparr>topic_id = ''t2'', topic_name = ''Trees'', topic_content = ''acyclic graphs'',
             keyTerms = [''root'']\<rparr>"


definition someContent :: StoredContent where
  "someContent = \<lparr>StoredContent.userId = ''u1'', title = ''notes'', fileName = ''notes.pdf'',
                  topics = [topicA, topicB]\<rparr>"

definition emptyWorld :: world where
  "emptyWorld = \<lparr>storedContent = [], revisionSchedules = [], requests = 0, console = []\<rparr>"

definition practisedWorld :: world where
  "practisedWorld =
     \<lparr>storedContent = [(''c1'', someContent)],
      revisionSchedules =
        [(''s4'', practisedSchedule), (''s5'', waveringSchedule), (''s6'', distantSchedule)],
      requests = 0, console = []\<rparr>"

definition someWorld :: world where
  "someWorld =
     \<lparr>storedContent = [(''c1'', someContent)],
      revisionSchedules =
        [(''s1'', freshSchedule), (''s2'', seasonedSchedule), (''s3'', strugglingSchedule)],
      requests = 0, console = []\<rparr>"

section \<open>Properties\<close>

subsection \<open>Association lists under \<^verbatim>\<open>updateDoc\<close>\<close>

lemma map_of_update_same:
  "map_of (map (\<lambda>kd. if fst kd = k then (fst kd, f (snd kd)) else kd) xs) k
     = map_option f (map_of xs k)"
  by (induction xs) auto

lemma map_of_update_other:
  "k' \<noteq> k \<Longrightarrow>
   map_of (map (\<lambda>kd. if fst kd = k then (fst kd, f (snd kd)) else kd) xs) k' = map_of xs k'"
  by (induction xs) auto

subsection \<open>Binary64 values\<close>

text \<open>
  \<open>round64\<close> is a rounding: its result differs from its argument by at most half a unit in
  the last place, that is by \<open>\<bar>x\<bar> / 2 ^ 53\<close>, or by \<open>pow2 (- 1075)\<close> among the subnormal values.
\<close>

lemma pow2_powi: "pow2 k = 2 powi k"
  by (simp add: pow2_def power_int_def inverse_eq_divide power_one_over)

lemma pow2_pos: "0 < pow2 k"
  by (simp add: pow2_powi)

text \<open>The exponent is the right one: \<open>pow2 (exponent x) \<le> x < pow2 (exponent x + 1)\<close>.\<close>

lemma exponent_le:
  assumes "0 < x"
  shows "pow2 (exponent x) \<le> x"
proof (cases "1 \<le> x")
  case True
  then have p: "0 < \<lfloor>x\<rfloor>" by linarith
  from bitlen_bounds [OF p] have b: "(2::int) ^ nat (bitlen \<lfloor>x\<rfloor> - 1) \<le> \<lfloor>x\<rfloor>" by simp
  from p have "1 \<le> bitlen \<lfloor>x\<rfloor>" by (auto simp: bitlen_alt_def)
  then have "pow2 (exponent x) = 2 ^ nat (bitlen \<lfloor>x\<rfloor> - 1)"
    using True by (simp add: exponent_def pow2_def)
  also have "\<dots> = of_int ((2::int) ^ nat (bitlen \<lfloor>x\<rfloor> - 1))" by simp
  also have "\<dots> \<le> of_int \<lfloor>x\<rfloor>" using b by (simp only: of_int_le_iff)
  also have "\<dots> \<le> x" by simp
  finally show ?thesis .
next
  case False
  let ?m = "\<lceil>1 / x\<rceil> - 1"
  from False assms have "1 < 1 / x" by (simp add: field_simps)
  then have "1 < \<lceil>1 / x\<rceil>" by linarith
  then have m: "0 < ?m" by simp
  from bitlen_bounds [OF m] have "?m < 2 ^ nat (bitlen ?m)" by simp
  then have c: "\<lceil>1 / x\<rceil> \<le> 2 ^ nat (bitlen ?m)" by simp
  have "1 / x \<le> of_int \<lceil>1 / x\<rceil>" by simp
  also have "\<dots> \<le> of_int (2 ^ nat (bitlen ?m))"
    using c by (simp only: of_int_le_iff)
  also have "\<dots> = 2 ^ nat (bitlen ?m)" by simp
  finally have "1 / x \<le> 2 ^ nat (bitlen ?m)" .
  with assms have le: "1 / 2 ^ nat (bitlen ?m) \<le> x"
    by (simp add: field_simps)
  from m have "1 \<le> bitlen ?m" by (auto simp: bitlen_alt_def)
  then have "pow2 (exponent x) = 1 / 2 ^ nat (bitlen ?m)"
    using False by (simp add: exponent_def pow2_def)
  with le show ?thesis by simp
qed

lemma exponent_less:
  assumes "0 < x"
  shows "x < pow2 (exponent x + 1)"
proof (cases "1 \<le> x")
  case True
  then have p: "0 < \<lfloor>x\<rfloor>" by linarith
  from bitlen_bounds [OF p] have b: "\<lfloor>x\<rfloor> + 1 \<le> 2 ^ nat (bitlen \<lfloor>x\<rfloor>)" by simp
  have "x < of_int (\<lfloor>x\<rfloor> + 1)" by linarith
  also have "\<dots> \<le> of_int (2 ^ nat (bitlen \<lfloor>x\<rfloor>))"
    using b by (simp only: of_int_le_iff)
  also have "\<dots> = 2 ^ nat (bitlen \<lfloor>x\<rfloor>)" by simp
  also have "\<dots> = pow2 (exponent x + 1)"
    using True bitlen_nonneg [of "\<lfloor>x\<rfloor>"] by (simp add: exponent_def pow2_def)
  finally show ?thesis .
next
  case False
  let ?m = "\<lceil>1 / x\<rceil> - 1"
  from False assms have "1 < 1 / x" by (simp add: field_simps)
  then have "1 < \<lceil>1 / x\<rceil>" by linarith
  then have m: "0 < ?m" by simp
  then have b1: "1 \<le> bitlen ?m" by (auto simp: bitlen_alt_def)
  from bitlen_bounds [OF m] have "2 ^ nat (bitlen ?m - 1) \<le> ?m" by simp
  then have "(of_int (2 ^ nat (bitlen ?m - 1)) :: rat) \<le> of_int ?m"
    by (simp only: of_int_le_iff)
  also have "of_int ?m < 1 / x" by linarith
  finally have "2 ^ nat (bitlen ?m - 1) < 1 / x" by simp
  with assms have lt: "x < 1 / 2 ^ nat (bitlen ?m - 1)"
    by (simp add: field_simps)
  have "pow2 (exponent x + 1) = 1 / 2 ^ nat (bitlen ?m - 1)"
  proof (cases "bitlen ?m = 1")
    case True
    with False show ?thesis by (simp add: exponent_def pow2_def)
  next
    case F: False
    with b1 have "1 < bitlen ?m" by simp
    with False show ?thesis by (simp add: exponent_def pow2_def algebra_simps)
  qed
  with lt show ?thesis by simp
qed

lemma roundTiesToEven_close: "\<bar>of_int (roundTiesToEven y) - y\<bar> \<le> 1 / 2"
proof -
  have "of_int \<lfloor>y\<rfloor> \<le> y" "y < of_int \<lfloor>y\<rfloor> + 1" by linarith+
  then show ?thesis
    by (auto simp: roundTiesToEven_def Let_def)
qed

lemma round64_close:
  "\<bar>round64 x - x\<bar> \<le> max (\<bar>x\<bar> / 2 ^ 53) (pow2 (- 1075))"
proof (cases "x = 0")
  case True
  then show ?thesis by (simp add: round64_def pow2_def)
next
  case False
  define k where "k = max (exponent \<bar>x\<bar> - 52) (- 1074)"
  define p where "p = pow2 k"
  have pp: "0 < p" by (simp add: p_def pow2_pos)
  have r: "round64 x = of_int (roundTiesToEven (x / p)) * p"
    using False by (simp add: round64_def k_def p_def Let_def)
  have "round64 x - x = (of_int (roundTiesToEven (x / p)) - x / p) * p"
    using pp by (simp add: r field_simps)
  then have "\<bar>round64 x - x\<bar> = \<bar>of_int (roundTiesToEven (x / p)) - x / p\<bar> * p"
    using pp by (simp add: abs_mult)
  also have "\<dots> \<le> 1 / 2 * p"
    using roundTiesToEven_close [of "x / p"] pp by (intro mult_right_mono) auto
  finally have e: "\<bar>round64 x - x\<bar> \<le> p / 2" by simp
  show ?thesis
  proof (cases "- 1074 \<le> exponent \<bar>x\<bar> - 52")
    case True
    then have "k = exponent \<bar>x\<bar> - 52" by (simp add: k_def)
    then have "p = pow2 (exponent \<bar>x\<bar>) / 2 ^ 52"
      by (simp add: p_def pow2_powi power_int_diff)
    also have "\<dots> \<le> \<bar>x\<bar> / 2 ^ 52"
      using exponent_le [of "\<bar>x\<bar>"] False by (simp add: divide_right_mono)
    finally have "p / 2 \<le> \<bar>x\<bar> / 2 ^ 53" by simp
    with e have "\<bar>round64 x - x\<bar> \<le> \<bar>x\<bar> / 2 ^ 53" by (rule order_trans)
    then show ?thesis by (rule max.coboundedI1)
  next
    case False
    then have "k = - 1074" by (simp add: k_def)
    then have "p / 2 = pow2 (- 1075)"
      by (simp add: p_def pow2_def)
    with e have "\<bar>round64 x - x\<bar> \<le> pow2 (- 1075)" by simp
    then show ?thesis by (rule max.coboundedI2)
  qed
qed

lemma round64_err: "\<bar>round64 x - x\<bar> \<le> (\<bar>x\<bar> + 1) / 2 ^ 53"
proof -
  have "pow2 (- 1075) = 1 / 2 ^ 1075" by (simp add: pow2_def)
  also have "\<dots> \<le> 1 / 2 ^ 53"
    by (intro divide_left_mono power_increasing) auto
  finally have "pow2 (- 1075) \<le> 1 / 2 ^ 53" .
  then have "max (\<bar>x\<bar> / 2 ^ 53) (pow2 (- 1075)) \<le> (\<bar>x\<bar> + 1) / 2 ^ 53"
    by (simp add: add_divide_distrib)
  with round64_close [of x] show ?thesis by (rule order_trans)
qed

text \<open>How the error moves through a rounding, a product and a maximum.\<close>

lemma rounded_near:
  assumes "\<bar>x - X\<bar> \<le> d" and "\<bar>X\<bar> \<le> B"
  shows "\<bar>round64 x - X\<bar> \<le> d + (B + d + 1) / 2 ^ 53"
proof -
  from assms have "\<bar>x\<bar> \<le> B + d" by linarith
  then have "(\<bar>x\<bar> + 1) / 2 ^ 53 \<le> (B + d + 1) / 2 ^ 53"
    by (intro divide_right_mono) auto
  with round64_err [of x] have "\<bar>round64 x - x\<bar> \<le> (B + d + 1) / 2 ^ 53"
    by (rule order_trans)
  with assms(1) show ?thesis by linarith
qed

lemma product_near:
  fixes a c A C da dc BA BC :: rat
  assumes "\<bar>a - A\<bar> \<le> da" and "\<bar>c - C\<bar> \<le> dc" and "\<bar>A\<bar> \<le> BA" and "\<bar>C\<bar> \<le> BC"
  shows "\<bar>a * c - A * C\<bar> \<le> da * (BC + dc) + BA * dc"
proof -
  have da: "0 \<le> da" and dc: "0 \<le> dc" and ba: "0 \<le> BA" using assms by linarith+
  from assms have c: "\<bar>c\<bar> \<le> BC + dc" by linarith
  have "a * c - A * C = (a - A) * c + A * (c - C)" by (simp add: algebra_simps)
  then have "\<bar>a * c - A * C\<bar> \<le> \<bar>a - A\<bar> * \<bar>c\<bar> + \<bar>A\<bar> * \<bar>c - C\<bar>"
    by (metis abs_mult abs_triangle_ineq)
  also have "\<bar>a - A\<bar> * \<bar>c\<bar> \<le> da * (BC + dc)"
    using assms(1) c by (intro mult_mono) auto
  also have "\<bar>A\<bar> * \<bar>c - C\<bar> \<le> BA * dc"
    using assms(2,3) ba by (intro mult_mono) auto
  finally show ?thesis by simp
qed

lemma max_near:
  fixes a c A C d :: rat
  assumes "\<bar>a - A\<bar> \<le> d" and "\<bar>c - C\<bar> \<le> d"
  shows "\<bar>max a c - max A C\<bar> \<le> d"
  using assms by (auto simp: max_def)

text \<open>
  The ease-factor expression of the source, evaluated in binary64, against the same
  expression in exact arithmetic: for a quality in \<open>[0, 5]\<close> they differ by at most
  \<open>(E + 97) / 2 ^ 53\<close>, which is below a billionth for every ease factor up to a million.
\<close>

lemma ease_error:
  assumes "0 \<le> q" and "q \<le> 5" and "0 \<le> E"
  shows "\<bar>max (round64 (13 / 10))
           (round64 (E +
              round64 (round64 (1 / 10) -
                round64 (round64 (5 - q) *
                  round64 (round64 (8 / 100) +
                    round64 (round64 (5 - q) * round64 (2 / 100)))))))
          - max (13 / 10) (E + (1 / 10 - (5 - q) * (8 / 100 + (5 - q) * (2 / 100))))\<bar>
         \<le> (E + 97) / 2 ^ 53"
proof -
  define A where "A = 5 - q"
  define a where "a = round64 A"
  have A: "\<bar>A\<bar> \<le> 5" using assms by (simp add: A_def)
  have A0: "0 \<le> A" using assms by (simp add: A_def)
  have "\<bar>a - A\<bar> \<le> 0 + (5 + 0 + 1) / 2 ^ 53"
    unfolding a_def by (rule rounded_near [OF _ A]) simp
  then have a: "\<bar>a - A\<bar> \<le> 6 / 2 ^ 53" by simp
  have "\<bar>round64 (2 / 100) - 2 / 100\<bar> \<le> 0 + (2 / 100 + 0 + 1) / 2 ^ 53"
    by (rule rounded_near) simp_all
  then have c2: "\<bar>round64 (2 / 100) - 2 / 100\<bar> \<le> 2 / 2 ^ 53" by simp
  have "\<bar>a * round64 (2 / 100) - A * (2 / 100)\<bar>
          \<le> 6 / 2 ^ 53 * (2 / 100 + 2 / 2 ^ 53) + 5 * (2 / 2 ^ 53)"
    by (rule product_near [OF a c2 A]) simp
  then have p1: "\<bar>a * round64 (2 / 100) - A * (2 / 100)\<bar> \<le> 11 / 2 ^ 53" by simp
  have B1: "\<bar>A * (2 / 100)\<bar> \<le> 1 / 10" using A by simp
  define b where "b = round64 (a * round64 (2 / 100))"
  have "\<bar>b - A * (2 / 100)\<bar> \<le> 11 / 2 ^ 53 + (1 / 10 + 11 / 2 ^ 53 + 1) / 2 ^ 53"
    unfolding b_def by (rule rounded_near [OF p1 B1])
  then have b: "\<bar>b - A * (2 / 100)\<bar> \<le> 13 / 2 ^ 53" by simp
  have "\<bar>round64 (8 / 100) - 8 / 100\<bar> \<le> 0 + (8 / 100 + 0 + 1) / 2 ^ 53"
    by (rule rounded_near) simp_all
  then have c8: "\<bar>round64 (8 / 100) - 8 / 100\<bar> \<le> 2 / 2 ^ 53" by simp
  define T where "T = 8 / 100 + A * (2 / 100)"
  have T: "\<bar>T\<bar> \<le> 18 / 100" using A A0 by (simp add: T_def)
  from c8 b have s: "\<bar>(round64 (8 / 100) + b) - T\<bar> \<le> 15 / 2 ^ 53"
    unfolding T_def by linarith
  define c where "c = round64 (round64 (8 / 100) + b)"
  have "\<bar>c - T\<bar> \<le> 15 / 2 ^ 53 + (18 / 100 + 15 / 2 ^ 53 + 1) / 2 ^ 53"
    unfolding c_def by (rule rounded_near [OF s T])
  then have c: "\<bar>c - T\<bar> \<le> 17 / 2 ^ 53" by simp
  have "\<bar>a * c - A * T\<bar> \<le> 6 / 2 ^ 53 * (18 / 100 + 17 / 2 ^ 53) + 5 * (17 / 2 ^ 53)"
    by (rule product_near [OF a c A T])
  then have p2: "\<bar>a * c - A * T\<bar> \<le> 87 / 2 ^ 53" by simp
  have T0: "0 \<le> T" using A0 by (simp add: T_def)
  have "A * T \<le> 5 * (18 / 100)"
    using A T A0 T0 by (intro mult_mono) auto
  then have AT: "A * T \<le> 9 / 10" by simp
  have AT0: "0 \<le> A * T" using A0 T0 by simp
  from AT AT0 have B2: "\<bar>A * T\<bar> \<le> 9 / 10" by simp
  define d where "d = round64 (a * c)"
  have "\<bar>d - A * T\<bar> \<le> 87 / 2 ^ 53 + (9 / 10 + 87 / 2 ^ 53 + 1) / 2 ^ 53"
    unfolding d_def by (rule rounded_near [OF p2 B2])
  then have d: "\<bar>d - A * T\<bar> \<le> 89 / 2 ^ 53" by simp
  have "\<bar>round64 (1 / 10) - 1 / 10\<bar> \<le> 0 + (1 / 10 + 0 + 1) / 2 ^ 53"
    by (rule rounded_near) simp_all
  then have c1: "\<bar>round64 (1 / 10) - 1 / 10\<bar> \<le> 2 / 2 ^ 53" by simp
  define F where "F = 1 / 10 - A * T"
  have F: "\<bar>F\<bar> \<le> 1" using AT AT0 by (simp add: F_def)
  from c1 d have f0: "\<bar>(round64 (1 / 10) - d) - F\<bar> \<le> 91 / 2 ^ 53"
    unfolding F_def by linarith
  define f where "f = round64 (round64 (1 / 10) - d)"
  have "\<bar>f - F\<bar> \<le> 91 / 2 ^ 53 + (1 + 91 / 2 ^ 53 + 1) / 2 ^ 53"
    unfolding f_def by (rule rounded_near [OF f0 F])
  then have f: "\<bar>f - F\<bar> \<le> 94 / 2 ^ 53" by simp
  then have g0: "\<bar>(E + f) - (E + F)\<bar> \<le> 94 / 2 ^ 53" by simp
  have G: "\<bar>E + F\<bar> \<le> E + 1" using F assms(3) by linarith
  define g where "g = round64 (E + f)"
  have "\<bar>g - (E + F)\<bar> \<le> 94 / 2 ^ 53 + (E + 1 + 94 / 2 ^ 53 + 1) / 2 ^ 53"
    unfolding g_def by (rule rounded_near [OF g0 G])
  also have "\<dots> \<le> (E + 97) / 2 ^ 53"
    by (simp add: field_simps)
  finally have g: "\<bar>g - (E + F)\<bar> \<le> (E + 97) / 2 ^ 53" .
  have "\<bar>round64 (13 / 10) - 13 / 10\<bar> \<le> 0 + (13 / 10 + 0 + 1) / 2 ^ 53"
    by (rule rounded_near) simp_all
  also have "\<dots> \<le> (E + 97) / 2 ^ 53"
    using assms(3) by (simp add: field_simps)
  finally have c13: "\<bar>round64 (13 / 10) - 13 / 10\<bar> \<le> (E + 97) / 2 ^ 53" .
  have "\<bar>max (round64 (13 / 10)) g - max (13 / 10) (E + F)\<bar> \<le> (E + 97) / 2 ^ 53"
    by (rule max_near [OF c13 g])
  then show ?thesis
    by (simp add: g_def f_def d_def c_def b_def a_def F_def T_def A_def)
qed

text \<open>
  The decimal literals of the source, and some values that are known from IEEE 754:
  \<^verbatim>\<open>0.1 + 0.2\<close> is \<^verbatim>\<open>0.30000000000000004\<close>, a third is rounded down, and above \<open>2 ^ 53\<close> the
  odd integers go to the even neighbour that has an even significand.
\<close>

lemma round64_literals:
  "round64 (1 / 10) = 3602879701896397 / 36028797018963968"
  "round64 (8 / 100) = 5764607523034235 / 72057594037927936"
  "round64 (2 / 100) = 5764607523034235 / 288230376151711744"
  "round64 (13 / 10) = 5854679515581645 / 4503599627370496"
  by code_simp+

lemma round64_examples:
  "round64 (5 / 2) = 5 / 2"
  "round64 (round64 (1 / 10) + round64 (2 / 10)) = 1351079888211149 / 4503599627370496"
  "round64 (1 / 3) = 6004799503160661 / 18014398509481984"
  "round64 (- (1 / 3)) = - (6004799503160661 / 18014398509481984)"
  "round64 9007199254740993 = 9007199254740992"
  "round64 9007199254740995 = 9007199254740996"
  by code_simp+

text \<open>The binary64 value of \<^verbatim>\<open>1.3\<close> lies above \<open>13 / 10\<close>.\<close>

lemma floor_of_ease: "13 / 10 \<le> round64 (13 / 10)"
  by (simp add: round64_literals)

text \<open>
  The ease factors and intervals of the model at the schedules used below. They are the
  values that the expressions of the source have in binary64: \<^verbatim>\<open>2.1799999999999997\<close> for a
  fresh schedule and quality 2, \<^verbatim>\<open>2.68\<close> for quality 7, and \<^verbatim>\<open>Math.round(8.5)\<close> for
  the interval 5 and the ease factor \<^verbatim>\<open>1.7\<close>, whose exact product is below 8.5.
\<close>

lemma fresh_values:
  "newEaseFactor freshSchedule 2 = 306807724614615 / 140737488355328"
  "newEaseFactor freshSchedule 5 = 5854679515581645 / 2251799813685248"
  "newEaseFactor freshSchedule 7 = 6034823500676465 / 2251799813685248"
  by code_simp+

lemma struggling_values:
  "newEaseFactor strugglingSchedule 0 = 5854679515581645 / 4503599627370496"
  "newEaseFactor strugglingSchedule 1 = 5854679515581645 / 4503599627370496"
  by code_simp+

lemma seasoned_values:
  "newEaseFactor seasonedSchedule 1 = 2206763817411543 / 1125899906842624"
  "newEaseFactor seasonedSchedule 3 = 5314247560297185 / 2251799813685248"
  "newInterval seasonedSchedule 3 = 47"
  by code_simp+

lemma practised_values:
  "newEaseFactor practisedSchedule 4 = 7656119366529843 / 4503599627370496"
  "newInterval practisedSchedule 4 = 9"
  "round (of_int (interval practisedSchedule) * newEaseFactor practisedSchedule 4) = 8"
  by code_simp+


text \<open>
  After the reviews 2 and 1 of a fresh schedule, a review of quality 3 gives the ease
  factor \<^verbatim>\<open>1.4999999999999998\<close> and the interval \<^verbatim>\<open>Math.round(1.4999999999999998)\<close>,
  which is 1.
\<close>

lemma relearned_values:
  "newEaseFactor relearnedSchedule 3 = 6755399441055743 / 4503599627370496"
  "newInterval relearnedSchedule 3 = 1"
  by code_simp+

subsection \<open>What a call of \<^verbatim>\<open>updateRevisionAfterReview\<close> returns\<close>

text \<open>
  The two cases of the call, by whether the document exists: every outcome of the two
  requests and of the two conversions to a timestamp is covered.
\<close>

lemma review_missing:
  assumes "map_of (revisionSchedules w) sid = None"
  shows "updateRevisionAfterReview e now1 now2 sid quality w =
           (if fails e (requests w)
            then (Inl RequestFailed, console_error ''Error updating revision schedule:'' (issued w))
            else (Inr (), issued w))"
  using assms by (simp add: updateRevisionAfterReview_def getDoc_revisionSchedules_def)

lemma review_existing:
  assumes "map_of (revisionSchedules w) sid = Some schedule"
  shows "updateRevisionAfterReview e now1 now2 sid quality w =
           (if fails e (requests w)
            then (Inl RequestFailed, console_error ''Error updating revision schedule:'' (issued w))
            else if \<not> inTimestampRange now2 \<or>
                    \<not> inTimestampRange (addDays e now1 (newInterval schedule quality))
            then (Inl TimestampOutOfRange,
                  console_error ''Error updating revision schedule:'' (issued w))
            else if fails e (Suc (requests w))
            then (Inl RequestFailed,
                  console_error ''Error updating revision schedule:'' (issued (issued w)))
            else (Inr (),
                  issued ((issued w)\<lparr>revisionSchedules :=
                     map (\<lambda>kd. if fst kd = sid
                                then (fst kd,
                                      reviewed now2 (addDays e now1 (newInterval schedule quality))
                                        quality schedule (snd kd))
                                else kd)
                       (revisionSchedules w)\<rparr>)))"
  using assms
  by (simp add: updateRevisionAfterReview_def getDoc_revisionSchedules_def
      updateDoc_revisionSchedules_def Timestamp_fromDate_def issued_def)

text \<open>After a call that resolved, the document holds the fields written by the call.\<close>

lemma review_stored:
  assumes "map_of (revisionSchedules w) sid = Some schedule"
    and "updateRevisionAfterReview e now1 now2 sid quality w = (Inr (), w')"
  shows "map_of (revisionSchedules w') sid =
           Some (reviewed now2 (addDays e now1 (newInterval schedule quality))
                   quality schedule schedule)"
proof -
  from assms have "w' = issued ((issued w)\<lparr>revisionSchedules :=
                     map (\<lambda>kd. if fst kd = sid
                                then (fst kd,
                                      reviewed now2 (addDays e now1 (newInterval schedule quality))
                                        quality schedule (snd kd))
                                else kd)
                       (revisionSchedules w)\<rparr>)"
    by (simp add: review_existing split: if_splits)
  then show ?thesis using assms(1)
    by (simp add: issued_def map_of_update_same)
qed


lemmas review_run =
  updateRevisionAfterReview_def getDoc_revisionSchedules_def updateDoc_revisionSchedules_def
  Timestamp_fromDate_def inTimestampRange_def addDays_def
  issued_def console_error_def quietEnv_def someWorld_def practisedWorld_def

text \<open>
  A review of quality 5 of a schedule with an interval of 1500000 days asks for a next
  review date 3900000 days ahead, after the year 9999: \<^verbatim>\<open>Timestamp.fromDate\<close> throws, the
  error is logged and rethrown, and nothing is written.
\<close>

lemma distant_values:
  "newEaseFactor distantSchedule 5 = 5854679515581645 / 2251799813685248"
  "newInterval distantSchedule 5 = 3900000"
  by code_simp+

lemma review_beyond_timestamp_range:
  "updateRevisionAfterReview quietEnv 1000 1000 ''s6'' 5 practisedWorld =
     (Inl TimestampOutOfRange,
      practisedWorld\<lparr>requests := 1, console := [''Error updating revision schedule:'']\<rparr>)"
  by (simp add: review_run distant_values)

subsection \<open>The SM-2 update\<close>

text \<open>
  Claim C1. For an existing schedule and a quality in \<open>[0, 5]\<close>, a call that resolves
  stores the interval \<open>1\<close> when \<open>quality < 3\<close>, whatever the prior interval and review
  count; otherwise \<open>1\<close> when the prior review count is \<open>0\<close>, \<open>6\<close> when it is \<open>1\<close>, and
  otherwise \<^verbatim>\<open>Math.round\<close> of the binary64 product of the prior interval and the ease
  factor stored by the same call, an integer within a half and one rounding of the exact
  product.
\<close>

theorem recordReview_interval:
  assumes "map_of (revisionSchedules w) sid = Some schedule"
    and "0 \<le> quality" and "quality \<le> 5"
    and "updateRevisionAfterReview e now1 now2 sid quality w = (Inr (), w')"
  shows "\<exists>stored. map_of (revisionSchedules w') sid = Some stored \<and>
           interval stored =
             (if quality < 3 then 1
              else if reviewCount schedule = 0 then 1
              else if reviewCount schedule = 1 then 6
              else round (round64 (of_int (interval schedule) * easeFactor stored))) \<and>
           (3 \<le> quality \<and> reviewCount schedule \<noteq> 0 \<and> reviewCount schedule \<noteq> 1
            \<longrightarrow> \<bar>of_int (interval stored) - of_int (interval schedule) * easeFactor stored\<bar>
                  \<le> 1 / 2 + (\<bar>of_int (interval schedule) * easeFactor stored\<bar> + 1) / 2 ^ 53)"
proof -
  let ?stored = "reviewed now2 (addDays e now1 (newInterval schedule quality))
                   quality schedule schedule"
  let ?product = "of_int (interval schedule) * easeFactor ?stored"
  have a: "map_of (revisionSchedules w') sid = Some ?stored"
    by (rule review_stored [OF assms(1) assms(4)])
  have b: "interval ?stored =
             (if quality < 3 then 1
              else if reviewCount schedule = 0 then 1
              else if reviewCount schedule = 1 then 6
              else round (round64 ?product))"
    by (simp add: reviewed_def newInterval_def)
  have "\<bar>of_int (round (round64 ?product)) - round64 ?product\<bar> \<le> 1 / 2"
    by (rule of_int_round_abs_le)
  with round64_err [of ?product]
  have "\<bar>of_int (round (round64 ?product)) - ?product\<bar>
          \<le> 1 / 2 + (\<bar>?product\<bar> + 1) / 2 ^ 53"
    by linarith
  with b have c: "3 \<le> quality \<and> reviewCount schedule \<noteq> 0 \<and> reviewCount schedule \<noteq> 1
            \<longrightarrow> \<bar>of_int (interval ?stored) - ?product\<bar>
                  \<le> 1 / 2 + (\<bar>?product\<bar> + 1) / 2 ^ 53"
    by simp
  from a b c show ?thesis by blast
qed

text \<open>
  Interval 5, ease factor \<^verbatim>\<open>1.7\<close>, five reviews, quality 4: the ease factor stays, the
  product is 8.5 in binary64 and the interval becomes 9.
\<close>

theorem recordReview_interval_witness:
  "map_of (revisionSchedules practisedWorld) ''s4'' = Some practisedSchedule \<and>
   (0::rat) \<le> 4 \<and> (4::rat) \<le> 5 \<and>
   (\<exists>stored. map_of (revisionSchedules
        (snd (updateRevisionAfterReview quietEnv 1000 1000 ''s4'' 4 practisedWorld))) ''s4'' =
          Some stored \<and>
      easeFactor stored = 7656119366529843 / 4503599627370496 \<and> interval stored = 9)"
proof -
  have h: "map_of (revisionSchedules practisedWorld) ''s4'' = Some practisedSchedule"
    by (simp add: practisedWorld_def)
  have r: "updateRevisionAfterReview quietEnv 1000 1000 ''s4'' 4 practisedWorld =
     (Inr (), snd (updateRevisionAfterReview quietEnv 1000 1000 ''s4'' 4 practisedWorld))"
    by (simp add: review_run practised_values)
  from recordReview_interval [OF h _ _ r]
  obtain stored where st: "map_of (revisionSchedules
        (snd (updateRevisionAfterReview quietEnv 1000 1000 ''s4'' 4 practisedWorld))) ''s4'' =
          Some stored"
    and iv: "interval stored =
               round (round64 (of_int (interval practisedSchedule) * easeFactor stored))"
    by (auto simp: practisedSchedule_def)
  have "map_option easeFactor (map_of (revisionSchedules
        (snd (updateRevisionAfterReview quietEnv 1000 1000 ''s4'' 4 practisedWorld))) ''s4'') =
          Some (7656119366529843 / 4503599627370496)"
    by (simp add: review_run practised_values reviewed_def)
  with st have ef: "easeFactor stored = 7656119366529843 / 4503599627370496" by simp
  have "round (round64 (of_int (interval practisedSchedule) * newEaseFactor practisedSchedule 4))
          = 9"
    using practised_values(2) by (simp add: newInterval_def practisedSchedule_def)
  with iv ef have "interval stored = 9" by (simp add: practised_values(1))
  with h st ef show ?thesis by simp
qed

text \<open>
  Claim C6. For a prior ease factor of at least \<open>1.3\<close> and a quality in \<open>[0, 5]\<close>, a call
  that resolves stores the ease factor
  \<^verbatim>\<open>max(1.3, easeFactor + (0.1 - (5 - quality) * (0.08 + (5 - quality) * 0.02)))\<close>, each
  operation and literal in binary64; that value is within \<open>(easeFactor + 97) / 2 ^ 53\<close> of
  the same expression in exact arithmetic, and it is at least \<open>1.3\<close>.
\<close>

theorem recordReview_easeFactor:
  assumes "map_of (revisionSchedules w) sid = Some schedule"
    and "13 / 10 \<le> easeFactor schedule"
    and "0 \<le> quality" and "quality \<le> 5"
    and "updateRevisionAfterReview e now1 now2 sid quality w = (Inr (), w')"
  shows "\<exists>stored. map_of (revisionSchedules w') sid = Some stored \<and>
           easeFactor stored =
             max (round64 (13 / 10))
               (round64 (easeFactor schedule +
                  round64 (round64 (1 / 10) -
                    round64 (round64 (5 - quality) *
                      round64 (round64 (8 / 100) +
                        round64 (round64 (5 - quality) * round64 (2 / 100))))))) \<and>
           \<bar>easeFactor stored -
              max (13 / 10)
                (easeFactor schedule +
                   (1 / 10 - (5 - quality) * (8 / 100 + (5 - quality) * (2 / 100))))\<bar>
             \<le> (easeFactor schedule + 97) / 2 ^ 53 \<and>
           13 / 10 \<le> easeFactor stored"
proof -
  let ?stored = "reviewed now2 (addDays e now1 (newInterval schedule quality))
                   quality schedule schedule"
  from assms(2) have pos: "0 \<le> easeFactor schedule" by simp
  have a: "map_of (revisionSchedules w') sid = Some ?stored"
    by (rule review_stored [OF assms(1) assms(5)])
  have b: "easeFactor ?stored =
             max (round64 (13 / 10))
               (round64 (easeFactor schedule +
                  round64 (round64 (1 / 10) -
                    round64 (round64 (5 - quality) *
                      round64 (round64 (8 / 100) +
                        round64 (round64 (5 - quality) * round64 (2 / 100)))))))"
    by (simp add: reviewed_def newEaseFactor_def)
  have "round64 (13 / 10) \<le> easeFactor ?stored"
    unfolding b by (rule max.cobounded1)
  with floor_of_ease have c: "13 / 10 \<le> easeFactor ?stored"
    by (rule order_trans)
  have d: "\<bar>easeFactor ?stored -
              max (13 / 10)
                (easeFactor schedule +
                   (1 / 10 - (5 - quality) * (8 / 100 + (5 - quality) * (2 / 100))))\<bar>
             \<le> (easeFactor schedule + 97) / 2 ^ 53"
    unfolding b by (rule ease_error [OF assms(3) assms(4) pos])
  from a b c d show ?thesis by blast
qed

text \<open>
  A fresh schedule and quality 2: the stored ease factor is \<^verbatim>\<open>2.1799999999999997\<close>, not
  \<open>109 / 50\<close>.
\<close>

theorem recordReview_easeFactor_witness:
  "map_of (revisionSchedules someWorld) ''s1'' = Some freshSchedule \<and>
   13 / 10 \<le> easeFactor freshSchedule \<and> (0::rat) \<le> 2 \<and> (2::rat) \<le> 5 \<and>
   (\<exists>stored. map_of (revisionSchedules
        (snd (updateRevisionAfterReview quietEnv 1000 1000 ''s1'' 2 someWorld))) ''s1'' = Some stored \<and>
      easeFactor stored = 306807724614615 / 140737488355328 \<and>
      easeFactor stored < 109 / 50 \<and> 13 / 10 \<le> easeFactor stored)"
proof -
  have h: "map_of (revisionSchedules someWorld) ''s1'' = Some freshSchedule"
    by (simp add: someWorld_def)
  have f: "13 / 10 \<le> easeFactor freshSchedule"
    by (simp add: freshSchedule_def)
  have r: "updateRevisionAfterReview quietEnv 1000 1000 ''s1'' 2 someWorld =
     (Inr (), snd (updateRevisionAfterReview quietEnv 1000 1000 ''s1'' 2 someWorld))"
    by (simp add: review_run newInterval_def)
  from recordReview_easeFactor [OF h f _ _ r]
  obtain stored where st: "map_of (revisionSchedules
        (snd (updateRevisionAfterReview quietEnv 1000 1000 ''s1'' 2 someWorld))) ''s1'' = Some stored"
    and lo: "13 / 10 \<le> easeFactor stored"
    by auto
  have "map_option easeFactor (map_of (revisionSchedules
        (snd (updateRevisionAfterReview quietEnv 1000 1000 ''s1'' 2 someWorld))) ''s1'') =
          Some (306807724614615 / 140737488355328)"
    by (simp add: review_run newInterval_def fresh_values reviewed_def)
  with st have ef: "easeFactor stored = 306807724614615 / 140737488355328" by simp
  with h f st lo show ?thesis by simp
qed



subsection \<open>Review count and dates\<close>

text \<open>
  Claim C8 says that after a successful call the stored review count is the prior one plus
  one, the last review date is \<open>now\<close> and the next review date is \<open>now\<close> plus the new
  interval in days, so that the next review date is the last review date plus the
  interval. The function reads the clock twice, first for the next review date and then
  for the last review date. With the readings 1000 and 1001 in the zone UTC the interval
  is one day, the last review date is 1001 and the next review date is 1000 plus one day.
\<close>

theorem recordReview_two_readings_counterexample:
  "fst (updateRevisionAfterReview quietEnv 1000 1001 ''s1'' 5 someWorld) = Inr () \<and>
   map_option interval
     (map_of (revisionSchedules (snd (updateRevisionAfterReview quietEnv 1000 1001 ''s1'' 5 someWorld)))
        ''s1'') = Some 1 \<and>
   map_option lastReviewDate
     (map_of (revisionSchedules (snd (updateRevisionAfterReview quietEnv 1000 1001 ''s1'' 5 someWorld)))
        ''s1'') = Some (Some 1001) \<and>
   map_option nextReviewDate
     (map_of (revisionSchedules (snd (updateRevisionAfterReview quietEnv 1000 1001 ''s1'' 5 someWorld)))
        ''s1'') = Some 86401000 \<and>
   (86401000::int) \<noteq> 1001 + 1 * 86400000"
  by (simp add: review_run reviewed_def newInterval_def freshSchedule_def)

text \<open>
  Claim C8, as the code has it. After a call that resolves on an existing schedule, for
  any quality in \<open>[0, 5]\<close>, failed recalls included, the stored review count is the prior
  one plus one; the last review date is the second clock reading; the next review date is
  the first clock reading moved by the new interval in local calendar days, that is the
  same local time of day that many days later. Hence the next review date is the last
  review date plus the interval in days of 24 hours when the two readings are the same
  and the offset of the time zone is the same at both dates.
\<close>

theorem recordReview_count_and_dates:
  assumes "map_of (revisionSchedules w) sid = Some schedule"
    and "0 \<le> quality" and "quality \<le> 5"
    and "updateRevisionAfterReview e now1 now2 sid quality w = (Inr (), w')"
  shows "\<exists>stored. map_of (revisionSchedules w') sid = Some stored \<and>
           reviewCount stored = reviewCount schedule + 1 \<and>
           lastReviewDate stored = Some now2 \<and>
           nextReviewDate stored =
             now1 + localTZA e now1 True + interval stored * 86400000
               - localTZA e (now1 + localTZA e now1 True + interval stored * 86400000) False \<and>
           (now2 = now1 \<and>
            localTZA e (now1 + localTZA e now1 True + interval stored * 86400000) False
              = localTZA e now1 True
            \<longrightarrow> map_option (\<lambda>d. d + interval stored * 86400000) (lastReviewDate stored)
                  = Some (nextReviewDate stored))"
  using review_stored [OF assms(1) assms(4)]
  by (simp add: reviewed_def addDays_def Let_def)

text \<open>
  A failed recall (quality 1) of a schedule reviewed five times, one second before the
  clocks of the zone go forward: the count becomes 6 and the next review is 23 hours
  later, at the same local time of the next day.
\<close>

theorem recordReview_count_and_dates_witness:
  "map_of (revisionSchedules someWorld) ''s2'' = Some seasonedSchedule \<and>
   (0::rat) \<le> 1 \<and> (1::rat) \<le> 5 \<and>
   (\<exists>stored. map_of (revisionSchedules
        (snd (updateRevisionAfterReview springEnv 49999000 49999007 ''s2'' 1 someWorld))) ''s2'' =
          Some stored \<and>
      reviewCount stored = 6 \<and> interval stored = 1 \<and>
      lastReviewDate stored = Some 49999007 \<and>
      nextReviewDate stored = 49999000 + 23 * 3600000)"
proof -
  have h: "map_of (revisionSchedules someWorld) ''s2'' = Some seasonedSchedule"
    by (simp add: someWorld_def)
  have r: "updateRevisionAfterReview springEnv 49999000 49999007 ''s2'' 1 someWorld =
     (Inr (), snd (updateRevisionAfterReview springEnv 49999000 49999007 ''s2'' 1 someWorld))"
    by (simp add: review_run springEnv_def newInterval_def)
  from recordReview_count_and_dates [OF h _ _ r]
  obtain stored where st: "map_of (revisionSchedules
        (snd (updateRevisionAfterReview springEnv 49999000 49999007 ''s2'' 1 someWorld))) ''s2'' =
          Some stored"
    and rc: "reviewCount stored = reviewCount seasonedSchedule + 1"
    and lr: "lastReviewDate stored = Some 49999007"
    and nr: "nextReviewDate stored =
               49999000 + localTZA springEnv 49999000 True + interval stored * 86400000
               - localTZA springEnv
                   (49999000 + localTZA springEnv 49999000 True + interval stored * 86400000) False"
    by auto
  have "map_option interval (map_of (revisionSchedules
        (snd (updateRevisionAfterReview springEnv 49999000 49999007 ''s2'' 1 someWorld))) ''s2'') =
          Some 1"
    by (simp add: review_run springEnv_def newInterval_def reviewed_def)
  with st have iv: "interval stored = 1" by simp
  from nr iv have "nextReviewDate stored = 49999000 + 23 * 3600000"
    by (simp add: springEnv_def)
  with h st rc lr iv show ?thesis by (simp add: seasonedSchedule_def)
qed

subsection \<open>Inputs outside the contract\<close>




text \<open>
  Claim C3 says that a schedule id without a document makes the call fail with a
  \<^verbatim>\<open>NotFound\<close> condition. The function returns at \<^verbatim>\<open>if (!docSnap.exists()) return;\<close>: the
  call resolves and nothing but the request counter has changed.
\<close>

theorem recordReview_missing_counterexample:
  "map_of (revisionSchedules someWorld) ''s9'' = None \<and>
   updateRevisionAfterReview quietEnv 1000 1000 ''s9'' 4 someWorld =
     (Inr (), someWorld\<lparr>requests := 1\<rparr>)"
  by (simp add: review_run)

text \<open>
  Claim C3, as the code has it. For a schedule id without a document, the call resolves
  as a no-op when the read is answered: nothing is written and nothing is logged. It
  fails only when the read itself is rejected, with the error of that request.
\<close>

theorem recordReview_missing:
  assumes "map_of (revisionSchedules w) sid = None"
  shows "updateRevisionAfterReview e now1 now2 sid quality w =
           (if fails e (requests w)
            then (Inl RequestFailed,
                  w\<lparr>requests := Suc (requests w),
                    console := console w @ [''Error updating revision schedule:'']\<rparr>)
            else (Inr (), w\<lparr>requests := Suc (requests w)\<rparr>))"
  using assms by (simp add: review_missing issued_def console_error_def)

theorem recordReview_missing_witness:
  "map_of (revisionSchedules emptyWorld) ''s1'' = None \<and>
   updateRevisionAfterReview (rejecting 3) 1000 1000 ''s1'' 4 emptyWorld =
     (Inr (), emptyWorld\<lparr>requests := 1\<rparr>)"
proof -
  have h: "map_of (revisionSchedules emptyWorld) ''s1'' = None"
    by (simp add: emptyWorld_def)
  from recordReview_missing [OF h, of "rejecting 3" 1000 1000 4] h
  show ?thesis
    by (simp add: rejecting_def emptyWorld_def)
qed

subsection \<open>Creating schedules\<close>











subsection \<open>Queries\<close>

lemma getDocs_rejected:
  "fails e (requests w) \<Longrightarrow> getDocs_revisionSchedules e wh w = (Inl RequestFailed, issued w)"
  by (simp add: getDocs_revisionSchedules_def)

lemma getDocs_answered:
  "\<not> fails e (requests w) \<Longrightarrow>
   getDocs_revisionSchedules e wh w =
     (Inr (sort_key (\<lambda>kd. nextReviewDate (snd kd))
             (filter (\<lambda>kd. wh (snd kd)) (revisionSchedules w))), issued w)"
  by (simp add: getDocs_revisionSchedules_def)

text \<open>
  Claim C10. For every user id, when the read is rejected, \<^verbatim>\<open>getRevisionSchedules\<close> and
  \<^verbatim>\<open>getDueRevisions\<close> return the empty list: the same value as an answered read for a
  user without schedules, respectively without a schedule that is due.
\<close>

theorem queries_hide_read_failure:
  assumes "fails e (requests w)"
    and "\<not> fails e1 (requests w1)"
    and "filter (\<lambda>kd. userId (snd kd) = uid) (revisionSchedules w1) = []"
    and "\<not> fails e2 (requests w2)"
    and "filter (\<lambda>kd. userId (snd kd) = uid \<and> nextReviewDate (snd kd) \<le> now)
           (revisionSchedules w2) = []"
  shows "fst (getRevisionSchedules e uid w) = [] \<and>
         fst (getDueRevisions e now uid w) = [] \<and>
         fst (getRevisionSchedules e uid w) = fst (getRevisionSchedules e1 uid w1) \<and>
         fst (getDueRevisions e now uid w) = fst (getDueRevisions e2 now uid w2)"
  using assms
  by (simp add: getRevisionSchedules_def getDueRevisions_def getDocs_rejected getDocs_answered)

text \<open>User \<open>u2\<close> has a schedule, and the rejected read returns what an empty store returns.\<close>

theorem queries_hide_read_failure_witness:
  "fails (rejecting 0) (requests someWorld) \<and>
   \<not> fails quietEnv (requests emptyWorld) \<and>
   filter (\<lambda>kd. userId (snd kd) = ''u2'') (revisionSchedules emptyWorld) = [] \<and>
   \<not> fails quietEnv (requests someWorld) \<and>
   filter (\<lambda>kd. userId (snd kd) = ''u2'' \<and> nextReviewDate (snd kd) \<le> 100)
     (revisionSchedules someWorld) = [] \<and>
   fst (getRevisionSchedules quietEnv ''u2'' someWorld) = [(''s3'', strugglingSchedule)] \<and>
   fst (getRevisionSchedules (rejecting 0) ''u2'' someWorld) = [] \<and>
   fst (getDueRevisions (rejecting 0) 100 ''u2'' someWorld) = [] \<and>
   fst (getRevisionSchedules (rejecting 0) ''u2'' someWorld) =
     fst (getRevisionSchedules quietEnv ''u2'' emptyWorld) \<and>
   fst (getDueRevisions (rejecting 0) 100 ''u2'' someWorld) =
     fst (getDueRevisions quietEnv 100 ''u2'' someWorld)"
proof -
  have a: "fails (rejecting 0) (requests someWorld)"
    by (simp add: rejecting_def someWorld_def)
  have b: "\<not> fails quietEnv (requests emptyWorld)" "\<not> fails quietEnv (requests someWorld)"
    by (simp_all add: quietEnv_def)
  have c: "filter (\<lambda>kd. userId (snd kd) = ''u2'') (revisionSchedules emptyWorld) = []"
    by (simp add: emptyWorld_def)
  have d: "filter (\<lambda>kd. userId (snd kd) = ''u2'' \<and> nextReviewDate (snd kd) \<le> 100)
             (revisionSchedules someWorld) = []"
    by (simp add: someWorld_def freshSchedule_def seasonedSchedule_def strugglingSchedule_def)
  have s: "fst (getRevisionSchedules quietEnv ''u2'' someWorld) = [(''s3'', strugglingSchedule)]"
    by (simp add: getRevisionSchedules_def getDocs_revisionSchedules_def quietEnv_def
        someWorld_def freshSchedule_def seasonedSchedule_def strugglingSchedule_def)
  from queries_hide_read_failure [OF a b(1) c b(2) d] a b c d s
  show ?thesis by blast
qed

subsection \<open>Deleting a document\<close>

text \<open>
  Claim C4 says that deleting a content item deletes every schedule whose \<^verbatim>\<open>contentId\<close>
  is its id. The source announces it (\<^verbatim>\<open>// Also delete related revision schedules\<close>) and
  fetches the schedules with \<^verbatim>\<open>getRevisionSchedules(contentId)\<close>, which selects by
  \<^verbatim>\<open>userId\<close>. With every request answered, the document \<open>c1\<close> is deleted and its two
  schedules remain.
\<close>

theorem deleteStoredContent_keeps_schedules_of_content:
  "fst (deleteStoredContent quietEnv ''c1'' someWorld) = Inr () \<and>
   storedContent (snd (deleteStoredContent quietEnv ''c1'' someWorld)) = [] \<and>
   revisionSchedules (snd (deleteStoredContent quietEnv ''c1'' someWorld)) =
     [(''s1'', freshSchedule), (''s2'', seasonedSchedule), (''s3'', strugglingSchedule)] \<and>
   contentId freshSchedule = ''c1'' \<and> contentId seasonedSchedule = ''c1''"
  by (simp add: deleteStoredContent_def deleteDoc_storedContent_def getRevisionSchedules_def
      getDocs_revisionSchedules_def issued_def quietEnv_def someWorld_def
      freshSchedule_def seasonedSchedule_def strugglingSchedule_def)

text \<open>
  In general, with every request answered and one document per id, the schedules that
  disappear are those whose \<^verbatim>\<open>userId\<close> is the content id.
\<close>

lemma deleteDoc_schedule_answered:
  "\<not> fails e (requests w) \<Longrightarrow>
   deleteDoc_revisionSchedules e sid w =
     (Inr (), w\<lparr>revisionSchedules := filter (\<lambda>kd. fst kd \<noteq> sid) (revisionSchedules w),
                requests := Suc (requests w)\<rparr>)"
  by (simp add: deleteDoc_revisionSchedules_def issued_def)

lemma forEachSchedule_answered:
  "\<forall>i<length ds. \<not> fails e (requests w + i) \<Longrightarrow>
   forEachSchedule e ds w =
     (Inr (),
      w\<lparr>revisionSchedules := filter (\<lambda>kd. fst kd \<notin> fst ` set ds) (revisionSchedules w),
        requests := requests w + length ds\<rparr>)"
proof (induction ds arbitrary: w)
  case Nil
  then show ?case by simp
next
  case (Cons d rest)
  from Cons.prems have first: "\<not> fails e (requests w)" by force
  let ?w1 = "w\<lparr>revisionSchedules := filter (\<lambda>kd. fst kd \<noteq> fst d) (revisionSchedules w),
               requests := Suc (requests w)\<rparr>"
  from Cons.prems have "\<forall>i<length rest. \<not> fails e (requests ?w1 + i)" by force
  from Cons.IH [OF this] first show ?case
    by (simp add: deleteDoc_schedule_answered conj_commute)
qed

lemma keys_of_matching:
  assumes "distinct (map fst xs)"
  shows "filter (\<lambda>kd. fst kd \<notin> fst ` set (sort_key f (filter P xs))) xs = filter (\<lambda>kd. \<not> P kd) xs"
proof (rule filter_cong [OF refl])
  fix kd assume m: "kd \<in> set xs"
  have "fst kd \<in> fst ` {x \<in> set xs. P x} \<longleftrightarrow> P kd"
  proof
    assume "fst kd \<in> fst ` {x \<in> set xs. P x}"
    then obtain x where x: "x \<in> set xs" "P x" "fst x = fst kd" by auto
    from assms have "inj_on fst (set xs)" by (simp add: distinct_map)
    with x m have "x = kd" by (auto dest: inj_onD)
    with x show "P kd" by simp
  next
    assume "P kd"
    with m show "fst kd \<in> fst ` {x \<in> set xs. P x}" by auto
  qed
  then show "(fst kd \<notin> fst ` set (sort_key f (filter P xs))) = (\<not> P kd)" by simp
qed

lemma deleteStoredContent_answered:
  assumes "\<forall>i < 2 + length (filter (\<lambda>kd. userId (snd kd) = cid) (revisionSchedules w)).
             \<not> fails e (requests w + i)"
    and "distinct (map fst (revisionSchedules w))"
  shows "deleteStoredContent e cid w =
           (Inr (),
            w\<lparr>storedContent := filter (\<lambda>kd. fst kd \<noteq> cid) (storedContent w),
              revisionSchedules := filter (\<lambda>kd. userId (snd kd) \<noteq> cid) (revisionSchedules w),
              requests := requests w + 2 +
                length (filter (\<lambda>kd. userId (snd kd) = cid) (revisionSchedules w))\<rparr>)"
proof -
  let ?found = "sort_key (\<lambda>kd. nextReviewDate (snd kd))
                  (filter (\<lambda>kd. userId (snd kd) = cid) (revisionSchedules w))"
  let ?w1 = "w\<lparr>storedContent := filter (\<lambda>kd. fst kd \<noteq> cid) (storedContent w),
               requests := Suc (requests w)\<rparr>"
  let ?w2 = "?w1\<lparr>requests := Suc (Suc (requests w))\<rparr>"
  from assms(1) have r0: "\<not> fails e (requests w)" by force
  from assms(1) have r1: "\<not> fails e (Suc (requests w))"
    by (metis add_Suc_right add_0_right add_2_eq_Suc less_add_Suc1 not_less_eq zero_less_Suc add_Suc)
  have d: "deleteDoc_storedContent e cid w = (Inr (), ?w1)"
    using r0 by (simp add: deleteDoc_storedContent_def issued_def)
  have g: "getRevisionSchedules e cid ?w1 = (?found, ?w2)"
    using r1 by (simp add: getRevisionSchedules_def getDocs_answered issued_def)
  have "\<forall>i<length ?found. \<not> fails e (requests ?w2 + i)"
  proof (intro allI impI)
    fix i assume "i < length ?found"
    then have "2 + i < 2 + length (filter (\<lambda>kd. userId (snd kd) = cid) (revisionSchedules w))"
      by simp
    with assms(1) have "\<not> fails e (requests w + (2 + i))" by blast
    then show "\<not> fails e (requests ?w2 + i)" by simp
  qed
  from forEachSchedule_answered [OF this]
  have l: "forEachSchedule e ?found ?w2 =
             (Inr (),
              ?w2\<lparr>revisionSchedules :=
                    filter (\<lambda>kd. fst kd \<notin> fst ` set ?found) (revisionSchedules ?w2),
                  requests := requests ?w2 + length ?found\<rparr>)" .
  have k: "filter (\<lambda>kd. fst kd \<notin> fst ` set ?found) (revisionSchedules w) =
           filter (\<lambda>kd. userId (snd kd) \<noteq> cid) (revisionSchedules w)"
    by (rule keys_of_matching [OF assms(2)])
  from l k show ?thesis
    by (simp add: deleteStoredContent_def d g)
qed

end
